theory Spec2Isabelle
  imports Complex_Main "HOL-Library.AList"
begin

section \<open>Python values used by \<open>bot_controller/controller.py\<close>\<close>

text \<open>
  Exceptions are values. The classes the controller names are constructors of their own;
  every other class is \<open>OtherException\<close> with its class name. \<open>float\<close> values
  (timestamps, coordinates, sleep durations) are idealised as reals, a \<open>bytes\<close> object
  is a list of naturals below 256, a \<open>str\<close> is a \<open>string\<close>.
\<close>

datatype exn =
    OverflowError
  | ValueError
  | KeyError string
  | ConnectionClosedError
  | SerialInterfaceException string
  | SerialException string
  | SystemExit
  | UnboundLocalError string
  | OtherException string

type_synonym byte = nat

subsection \<open>\<open>int.to_bytes(n, "big")\<close>, \<open>binascii.hexlify\<close>, \<open>int(s, 16)\<close>\<close>

fun be_bytes :: "nat \<Rightarrow> nat \<Rightarrow> byte list" where
  "be_bytes 0 x = []"
| "be_bytes (Suc n) x = be_bytes n (x div 256) @ [x mod 256]"

text \<open>\<open>x.to_bytes(n, "big")\<close>: OverflowError for a negative \<open>x\<close> and for one too big.\<close>

definition to_bytes_big :: "int \<Rightarrow> nat \<Rightarrow> exn + byte list" where
  "to_bytes_big x n =
     (if x < 0 \<or> 256 ^ n \<le> x then Inl OverflowError else Inr (be_bytes n (nat x)))"

definition hex_digits :: string where
  "hex_digits = ''0123456789abcdef''"

fun hexlify :: "byte list \<Rightarrow> string" where
  "hexlify [] = []"
| "hexlify (b # bs) = hex_digits ! (b div 16) # hex_digits ! (b mod 16) # hexlify bs"

definition digit_value :: "char \<Rightarrow> nat option" where
  "digit_value c = map_of
     [(CHR ''0'', 0), (CHR ''1'', 1), (CHR ''2'', 2), (CHR ''3'', 3), (CHR ''4'', 4),
      (CHR ''5'', 5), (CHR ''6'', 6), (CHR ''7'', 7), (CHR ''8'', 8), (CHR ''9'', 9),
      (CHR ''a'', 10), (CHR ''b'', 11), (CHR ''c'', 12), (CHR ''d'', 13), (CHR ''e'', 14),
      (CHR ''f'', 15), (CHR ''A'', 10), (CHR ''B'', 11), (CHR ''C'', 12), (CHR ''D'', 13),
      (CHR ''E'', 14), (CHR ''F'', 15)] c"

text \<open>
  The characters \<open>int()\<close> strips from both ends of a \<open>str\<close>, among the code points
  below 256: tab, LF, VT, FF, CR, FS, GS, RS, US, space, NEL, NBSP.
\<close>

definition py_isspace :: "char \<Rightarrow> bool" where
  "py_isspace c = (of_char c \<in> {9, 10, 11, 12, 13, 28, 29, 30, 31, 32, 133, 160 :: nat})"

definition strip :: "string \<Rightarrow> string" where
  "strip s = rev (dropWhile py_isspace (rev (dropWhile py_isspace s)))"

text \<open>The digits after the first one: one underscore may stand between two digits.\<close>

fun digits16 :: "int \<Rightarrow> string \<Rightarrow> exn + int" where
  "digits16 acc [] = Inr acc"
| "digits16 acc [c] =
     (case digit_value c of None \<Rightarrow> Inl ValueError | Some v \<Rightarrow> Inr (16 * acc + int v))"
| "digits16 acc (c # d # ds) =
     (if c = CHR ''_'' then
        (case digit_value d of
           None \<Rightarrow> Inl ValueError
         | Some v \<Rightarrow> digits16 (16 * acc + int v) ds)
      else
        (case digit_value c of
           None \<Rightarrow> Inl ValueError
         | Some v \<Rightarrow> digits16 (16 * acc + int v) (d # ds)))"

definition split_sign :: "string \<Rightarrow> int \<times> string" where
  "split_sign s =
     (case s of
        [] \<Rightarrow> (1, s)
      | c # r \<Rightarrow> if c = CHR ''+'' then (1, r) else if c = CHR ''-'' then (- 1, r) else (1, s))"

definition skip_0x :: "string \<Rightarrow> string" where
  "skip_0x s =
     (case s of
        a # b # r \<Rightarrow>
          if a = CHR ''0'' \<and> (b = CHR ''x'' \<or> b = CHR ''X'')
          then (case r of [] \<Rightarrow> r | c # r' \<Rightarrow> if c = CHR ''_'' then r' else r)
          else s
      | _ \<Rightarrow> s)"

text \<open>
  \<open>int(s, 16)\<close>: surrounding whitespace, an optional sign, an optional \<open>0x\<close> prefix
  (with one underscore allowed after it), then hexadecimal digits; ValueError otherwise.
\<close>

definition py_int16 :: "string \<Rightarrow> exn + int" where
  "py_int16 s =
     (case split_sign (strip s) of
        (sg, u) \<Rightarrow>
          (case skip_0x u of
             [] \<Rightarrow> Inl ValueError
           | c # cs \<Rightarrow>
               (case digit_value c of
                  None \<Rightarrow> Inl ValueError
                | Some v \<Rightarrow>
                    (case digits16 (int v) cs of
                       Inl e \<Rightarrow> Inl e
                     | Inr n \<Rightarrow> Inr (sg * n)))))"

subsection \<open>Addresses\<close>

text \<open>
  The value of a big-endian byte string, the 64-bit addresses of the protocol header
  (spec, data model), and the 16-digit key \<open>hexlify(int(x).to_bytes(8, "big")).decode()\<close>
  under which the controller files a device.
\<close>

fun from_be :: "byte list \<Rightarrow> nat" where
  "from_be [] = 0"
| "from_be (b # bs) = b * 256 ^ length bs + from_be bs"

definition valid_address :: "int \<Rightarrow> bool" where
  "valid_address x = (0 \<le> x \<and> x < 2 ^ 64)"

definition hex_address :: "int \<Rightarrow> string" where
  "hex_address x = hexlify (be_bytes 8 (nat x))"

text \<open>The expression itself, with the OverflowError of \<open>to_bytes\<close>.\<close>

definition address_key :: "int \<Rightarrow> exn + string" where
  "address_key x =
     (case to_bytes_big x 8 of Inl e \<Rightarrow> Inl e | Inr bs \<Rightarrow> Inr (hexlify bs))"

subsection \<open>\<open>os.path.join\<close> on a POSIX system (\<open>posixpath.join\<close>)\<close>

definition sep :: string where
  "sep = ''/''"

text \<open>
  One round of the loop of \<open>posixpath.join\<close>: a component that starts with the separator
  replaces the path built so far.
\<close>

definition join_step :: "string \<Rightarrow> string \<Rightarrow> string" where
  "join_step path b =
     (if take 1 b = sep then b
      else if path = [] \<or> (path \<noteq> [] \<and> [last path] = sep) then path @ b
      else path @ sep @ b)"

definition os_path_join :: "string \<Rightarrow> string list \<Rightarrow> string" where
  "os_path_join a p = foldl join_step a p"

section \<open>Settings, protocol types and the device record\<close>

definition DEFAULT_CALIBRATION_DIR :: string where
  "DEFAULT_CALIBRATION_DIR = ''/tmp''"

record ControllerSettings =
  port :: string
  baudrate :: int
  dotbot_address :: string
  gw_address :: string
  swarm_id :: string
  calibration_dir :: string
  calibrate :: bool
  webbrowser :: bool
  verbose :: bool

text \<open>
  Modelled from the spec: \<open>bot_controller/protocol.py\<close> is not part of the sources at hand.
  \<open>ProtocolHeader\<close> carries the four integers the controller constructs it from
  (destination, source, swarm id, version); \<open>PayloadType\<close> has the three members the
  controller names, every other tag is \<open>OTHER_TYPE\<close>; the body of a payload
  (\<open>values\<close>, here \<open>payload_values\<close>) is left abstract.
\<close>

record ProtocolHeader =
  destination :: int
  source :: int
  header_swarm_id :: int
  version :: int

datatype PayloadType = CMD_MOVE_RAW | CMD_RGB_LED | LH2_RAW_DATA | OTHER_TYPE nat

record 'v ProtocolPayload =
  header :: ProtocolHeader
  payload_type :: PayloadType
  payload_values :: 'v

text \<open>
  Modelled from the spec: \<open>bot_controller/models.py\<close> is not part of the sources at hand.
  \<open>DotBotModel\<close> has the three fields the controller sets (the optional position and
  LED fields keep their defaults and are never touched by the controller).
\<close>

record DotBotModel =
  address :: string
  last_seen :: real
  active :: bool

record SerialInterface =
  serial_port :: string
  serial_baudrate :: int

section \<open>The controller object\<close>

text \<open>
  \<open>self.dotbots\<close> is a Python dict: an association list in insertion order with unique
  keys. \<open>AList.update\<close> is \<open>dict.update\<close> with one pair: it replaces the value of a
  key in place and appends a new key at the end.
\<close>

record ('cal, 'ws) ControllerBase =
  dotbots :: "(string \<times> DotBotModel) list"
  self_header :: ProtocolHeader
  settings :: ControllerSettings
  serial :: "SerialInterface option"
  websockets :: "'ws list"
  calibration :: "'cal option"

text \<open>
  The file system as \<open>__init__\<close> meets it: \<open>os.path.exists\<close>, and
  \<open>pickle.load(open(path, "rb"))\<close>, which may raise.
\<close>

record 'cal filesystem =
  path_exists :: "string \<Rightarrow> bool"
  pickle_load :: "string \<Rightarrow> exn + 'cal"

definition calibration_path :: "ControllerSettings \<Rightarrow> string" where
  "calibration_path st = os_path_join (calibration_dir st) [''/tmp/calibration.out'']"

text \<open>
  \<open>ControllerBase.__init__\<close>. \<open>PROTOCOL_VERSION\<close> is a constant of the absent
  \<open>protocol.py\<close>, taken as a parameter; the frame synchronizer \<open>hdlc_handler\<close>, of
  the absent \<open>hdlc.py\<close>, is left out with \<open>handle_byte\<close>, its only user. The three
  \<open>int(_, 16)\<close> calls are evaluated in the order of the source and the first ValueError
  ends the construction.
\<close>

definition controller_init ::
  "'cal filesystem \<Rightarrow> int \<Rightarrow> ControllerSettings \<Rightarrow> exn + ('cal, 'ws) ControllerBase" where
  "controller_init fs PROTOCOL_VERSION st =
     (case py_int16 (dotbot_address st) of
        Inl e \<Rightarrow> Inl e
      | Inr d \<Rightarrow>
     (case py_int16 (gw_address st) of
        Inl e \<Rightarrow> Inl e
      | Inr g \<Rightarrow>
     (case py_int16 (swarm_id st) of
        Inl e \<Rightarrow> Inl e
      | Inr sw \<Rightarrow>
     (let c = \<lparr>dotbots = [],
                self_header = \<lparr>destination = d, source = g, header_swarm_id = sw,
                                version = PROTOCOL_VERSION\<rparr>,
                settings = st,
                serial = None,
                websockets = [],
                calibration = None\<rparr>
      in if path_exists fs (calibration_path st)
         then (case pickle_load fs (calibration_path st) of
                 Inl e \<Rightarrow> Inl e
               | Inr cal \<Rightarrow> Inr (c\<lparr>calibration := Some cal\<rparr>))
         else Inr c))))"

section \<open>Effects\<close>

text \<open>
  What the controller does to the outside world is recorded, in program order, as a list
  of effects returned beside the new state. A notification message is the JSON value that
  the source passes to \<open>json.dumps\<close>. \<open>Create_task m\<close> is
  \<open>asyncio.create_task(self.notify_clients(m))\<close>: it only schedules the coroutine, whose
  body starts when the running task next yields to the event loop. \<open>Notify_clients m\<close>
  marks the start of a \<open>notify_clients(m)\<close> body, \<open>Send_text ws m\<close> is a
  \<open>send_text\<close> that went through, \<open>Sleep d\<close> is \<open>asyncio.sleep(d)\<close>,
  \<open>Serial_write bs\<close> is \<open>self.serial.write(bs)\<close>, \<open>Cancel a\<close> is
  \<open>task.cancel()\<close> on the task of activity \<open>a\<close>.
\<close>

datatype json = JString string | JNumber real | JObject "(string \<times> json) list"

datatype activity =
  Web | Open_webbrowser | Start_serial | Dotbots_update | Dotbots_table_refresh | Start

datatype ('v, 'ws) effect =
    Print_payload "'v ProtocolPayload"
  | Print_exn exn
  | Save_camera_points 'v string
  | Create_task json
  | Notify_clients json
  | Send_text 'ws json
  | Sleep real
  | Serial_write "byte list"
  | Cancel activity

definition reload_message :: json where
  "reload_message = JObject [(''cmd'', JString ''reload'')]"

definition lh2_position_message :: "string \<Rightarrow> real \<Rightarrow> real \<Rightarrow> json" where
  "lh2_position_message addr x y =
     JObject [(''cmd'', JString ''lh2_position''), (''address'', JString addr),
              (''x'', JNumber x), (''y'', JNumber y)]"

section \<open>Event fan-out\<close>

text \<open>
  \<open>_ws_send_safe\<close>. The outcome of \<open>websocket.send_text\<close> belongs to the
  environment: \<open>send_text ws msg\<close> is \<open>None\<close> when the send goes through and
  \<open>Some e\<close> when it raises \<open>e\<close>. Only \<open>ConnectionClosedError\<close> is caught.
\<close>

definition ws_send_safe ::
  "('ws \<Rightarrow> json \<Rightarrow> exn option) \<Rightarrow> 'ws \<Rightarrow> json \<Rightarrow> (exn + unit) \<times> ('v, 'ws) effect list" where
  "ws_send_safe send_text ws msg =
     (case send_text ws msg of
        None \<Rightarrow> (Inr (), [Send_text ws msg])
      | Some e \<Rightarrow> if e = ConnectionClosedError then (Inr (), [Sleep (1 / 10)]) else (Inl e, []))"

text \<open>
  \<open>asyncio.gather\<close> without \<open>return_exceptions\<close>: every awaitable runs to its end
  whatever the others do, and the first exception raised is the one the caller gets. The
  sends are laid out in list order here; which exception is first in real time is not
  modelled.
\<close>

fun gather :: "(exn + unit) list \<Rightarrow> exn + unit" where
  "gather [] = Inr ()"
| "gather (Inl e # rs) = Inl e"
| "gather (Inr u # rs) = gather rs"

definition notify_clients ::
  "('ws \<Rightarrow> json \<Rightarrow> exn option) \<Rightarrow> ('cal, 'ws) ControllerBase \<Rightarrow> json \<Rightarrow>
   (exn + unit) \<times> ('v, 'ws) effect list" where
  "notify_clients send_text c message =
     (let rs = map (\<lambda>websocket. ws_send_safe send_text websocket message) (websockets c)
      in (gather (map fst rs), Notify_clients message # concat (map snd rs)))"

section \<open>Fleet state engine\<close>

text \<open>
  \<open>handle_received_payload\<close>. \<open>compute_coordinates\<close> (the positioning solver of the
  absent \<open>lighthouse2\<close> module) is a parameter returning an optional coordinate pair;
  \<open>save_camera_points\<close> is an effect. \<open>now\<close> is the value \<open>time.time()\<close> returns.
  The function is synchronous: no other task runs between its first and last statement.
\<close>

definition handle_received_payload ::
  "('v \<Rightarrow> 'cal \<Rightarrow> (real \<times> real) option) \<Rightarrow> real \<Rightarrow> 'v ProtocolPayload \<Rightarrow>
   ('cal, 'ws) ControllerBase \<Rightarrow>
   (exn + unit) \<times> ('cal, 'ws) ControllerBase \<times> ('v, 'ws) effect list" where
  "handle_received_payload compute_coordinates now payload c =
     (if payload_type payload \<in> set [CMD_MOVE_RAW, CMD_RGB_LED] then (Inr (), c, [])
      else
        let printed = (if verbose (settings c) then [Print_payload payload] else []) in
        case address_key (source (header payload)) of
          Inl e \<Rightarrow> (Inl e, c, printed)
        | Inr src \<Rightarrow>
            (case py_int16 src of
               Inl e \<Rightarrow> (Inl e, c, printed)
             | Inr n \<Rightarrow>
                 let dotbot = \<lparr>address = src, last_seen = now,
                               active = (n = destination (self_header c))\<rparr>;
                     lh2 =
                       (if payload_type payload = LH2_RAW_DATA then
                          (if calibrate (settings c)
                           then [Save_camera_points (payload_values payload)
                                   (os_path_join (calibration_dir (settings c))
                                      [''calibration.csv''])]
                           else []) @
                          (case calibration c of
                             None \<Rightarrow> []
                           | Some cal \<Rightarrow>
                               (case compute_coordinates (payload_values payload) cal of
                                  None \<Rightarrow> []
                                | Some (x, y) \<Rightarrow>
                                    [Create_task (lh2_position_message (address dotbot) x y)]))
                        else []);
                     reload =
                       (if src \<notin> fst ` set (dotbots c) then [Create_task reload_message]
                        else [])
                 in (Inr (),
                     c\<lparr>dotbots := AList.update (address dotbot) dotbot (dotbots c)\<rparr>,
                     printed @ lh2 @ reload)))"

text \<open>
  One round of the \<open>while 1\<close> loop of \<open>_dotbots_update\<close>, named
  \<open>dotbots_update_tick\<close> (the record update of the field \<open>dotbots\<close> has the
  source's name). \<open>time.time()\<close> is read once for every record scanned: \<open>clock i\<close>
  is the \<open>i\<close>-th reading of the round. \<open>dict.pop\<close> raises KeyError on a missing
  key, and the records popped before it stay removed. Other tasks may change fleet state
  while the loop sleeps, so successive rounds are not chained here: \<open>step\<close> below
  interleaves them with the payloads handled in between.
\<close>

fun stale_scan :: "(nat \<Rightarrow> real) \<Rightarrow> nat \<Rightarrow> DotBotModel list \<Rightarrow> DotBotModel list" where
  "stale_scan clock i [] = []"
| "stale_scan clock i (dotbot # rest) =
     (if last_seen dotbot + 3 < clock i then [dotbot] else []) @ stale_scan clock (Suc i) rest"

definition dict_pop :: "string \<Rightarrow> (string \<times> 'a) list \<Rightarrow> exn + (string \<times> 'a) list" where
  "dict_pop k d = (if k \<in> fst ` set d then Inr (AList.delete k d) else Inl (KeyError k))"

fun pop_all ::
  "DotBotModel list \<Rightarrow> (string \<times> DotBotModel) list \<Rightarrow>
   (exn + unit) \<times> (string \<times> DotBotModel) list" where
  "pop_all [] d = (Inr (), d)"
| "pop_all (dotbot # rest) d =
     (case dict_pop (address dotbot) d of
        Inl e \<Rightarrow> (Inl e, d)
      | Inr d' \<Rightarrow> pop_all rest d')"

definition dotbots_update_tick ::
  "(nat \<Rightarrow> real) \<Rightarrow> ('ws \<Rightarrow> json \<Rightarrow> exn option) \<Rightarrow> ('cal, 'ws) ControllerBase \<Rightarrow>
   (exn + unit) \<times> ('cal, 'ws) ControllerBase \<times> ('v, 'ws) effect list" where
  "dotbots_update_tick clock send_text c =
     (let to_remove = stale_scan clock 0 (map snd (dotbots c)) in
      case pop_all to_remove (dotbots c) of
        (Inl e, d) \<Rightarrow> (Inl e, c\<lparr>dotbots := d\<rparr>, [])
      | (Inr u, d) \<Rightarrow>
          let c' = c\<lparr>dotbots := d\<rparr> in
          if to_remove \<noteq> [] then
            (case notify_clients send_text c' reload_message of
               (Inl e, sent) \<Rightarrow> (Inl e, c', sent)
             | (Inr u, sent) \<Rightarrow> (Inr (), c', sent @ [Sleep 1]))
          else (Inr (), c', [Sleep 1]))"

section \<open>Outbound path and orchestrator\<close>

text \<open>
  \<open>send_payload\<close>. \<open>payload.to_bytes\<close> and \<open>hdlc_encode\<close> belong to the absent
  \<open>protocol\<close> and \<open>hdlc\<close> modules and are parameters. The controller is not changed.
\<close>

definition send_payload ::
  "('v ProtocolPayload \<Rightarrow> byte list) \<Rightarrow> (byte list \<Rightarrow> byte list) \<Rightarrow> 'v ProtocolPayload \<Rightarrow>
   ('cal, 'ws) ControllerBase \<Rightarrow> (exn + unit) \<times> ('v, 'ws) effect list" where
  "send_payload to_bytes hdlc_encode payload c =
     (case address_key (destination (header payload)) of
        Inl e \<Rightarrow> (Inl e, [])
      | Inr dst \<Rightarrow>
          if dst \<notin> fst ` set (dotbots c) then (Inr (), [])
          else (case serial c of
                  None \<Rightarrow> (Inr (), [])
                | Some s \<Rightarrow> (Inr (), [Serial_write (hdlc_encode (to_bytes payload))])))"

text \<open>\<open>_start_serial\<close> up to its loop: the serial handle is set.\<close>

definition start_serial :: "('cal, 'ws) ControllerBase \<Rightarrow> ('cal, 'ws) ControllerBase" where
  "start_serial c =
     c\<lparr>serial := Some \<lparr>serial_port = port (settings c),
                        serial_baudrate = baudrate (settings c)\<rparr>\<rparr>"

text \<open>
  \<open>run\<close>. The six activities are loops of their own; what \<open>run\<close> sees of them is the
  outcome of \<open>await asyncio.gather(*tasks)\<close>: nothing as long as they run (\<open>None\<close>,
  and \<open>run\<close> does not return), all finished, or the exception the await raises, which
  is the first one raised by an activity. The outcome of the abstract \<open>init\<close> is a
  parameter too. When \<open>init\<close> raises an exception of the \<open>except\<close> clause,
  \<open>tasks\<close> is not yet bound when the handler loops over it. A cancelled task stops at
  its next suspension point; \<open>cancel\<close> on a finished task does nothing.
\<close>

datatype gathered = All_done | Raised activity exn

definition tasks :: "activity list" where
  "tasks = [Web, Open_webbrowser, Start_serial, Dotbots_update, Dotbots_table_refresh, Start]"

fun caught_by_run :: "exn \<Rightarrow> bool" where
  "caught_by_run SystemExit = True"
| "caught_by_run (SerialInterfaceException m) = True"
| "caught_by_run (SerialException m) = True"
| "caught_by_run e = False"

definition run ::
  "exn option \<Rightarrow> gathered option \<Rightarrow> ((exn + unit) \<times> ('v, 'ws) effect list) option" where
  "run init_outcome outcome =
     (case init_outcome of
        Some e \<Rightarrow>
          if caught_by_run e then Some (Inl (UnboundLocalError ''tasks''), [Print_exn e])
          else Some (Inl e, [])
      | None \<Rightarrow>
          (case outcome of
             None \<Rightarrow> None
           | Some All_done \<Rightarrow> Some (Inr (), [])
           | Some (Raised a e) \<Rightarrow>
               if caught_by_run e then Some (Inr (), Print_exn e # map Cancel tasks)
               else Some (Inl e, [])))"

section \<open>Observations and sample inputs\<close>

text \<open>
  What an effect list shows: the messages of the notification tasks created, the messages
  for which a \<open>notify_clients\<close> body started, the sends that went through, the byte
  strings written to the serial port; and the \<open>cmd\<close> member of a message.
\<close>

fun created_tasks :: "('v, 'ws) effect list \<Rightarrow> json list" where
  "created_tasks [] = []"
| "created_tasks (Create_task m # es) = m # created_tasks es"
| "created_tasks (e # es) = created_tasks es"

fun notified :: "('v, 'ws) effect list \<Rightarrow> json list" where
  "notified [] = []"
| "notified (Notify_clients m # es) = m # notified es"
| "notified (e # es) = notified es"

fun delivered :: "('v, 'ws) effect list \<Rightarrow> ('ws \<times> json) list" where
  "delivered [] = []"
| "delivered (Send_text ws m # es) = (ws, m) # delivered es"
| "delivered (e # es) = delivered es"

fun written :: "('v, 'ws) effect list \<Rightarrow> byte list list" where
  "written [] = []"
| "written (Serial_write bs # es) = bs # written es"
| "written (e # es) = written es"

fun cmd_of :: "json \<Rightarrow> string option" where
  "cmd_of (JObject kv) = (case map_of kv ''cmd'' of Some (JString s) \<Rightarrow> Some s | _ \<Rightarrow> None)"
| "cmd_of j = None"

definition is_reload :: "json \<Rightarrow> bool" where
  "is_reload m = (cmd_of m = Some ''reload'')"

definition is_lh2_position :: "json \<Rightarrow> bool" where
  "is_lh2_position m = (cmd_of m = Some ''lh2_position'')"

definition keys :: "('cal, 'ws) ControllerBase \<Rightarrow> string set" where
  "keys c = fst ` set (dotbots c)"

text \<open>
  Fleet states as the controller builds them: keys are unique and every record is filed
  under its own address.
\<close>

definition fleet_ok :: "(string \<times> DotBotModel) list \<Rightarrow> bool" where
  "fleet_ok d = (distinct (map fst d) \<and> (\<forall>(k, r) \<in> set d. address r = k))"

definition stale :: "real \<Rightarrow> DotBotModel \<Rightarrow> bool" where
  "stale now r = (last_seen r + 3 < now)"

text \<open>
  The invariant of the controller: fleet state is well formed and every record is active
  exactly when its address, read as a hexadecimal number, is the destination of the
  controller's own header.
\<close>

definition records_ok :: "('cal, 'ws) ControllerBase \<Rightarrow> bool" where
  "records_ok c =
     (fleet_ok (dotbots c) \<and>
      (\<forall>(k, d) \<in> set (dotbots c).
         active d \<longleftrightarrow> py_int16 (address d) = Inr (destination (self_header c))))"

text \<open>
  The two things that change fleet state, as events: a payload handled at a time, and a
  round of the eviction loop with its clock readings. \<open>step\<close> keeps the controller they
  leave behind.
\<close>

datatype 'v event = Received real "'v ProtocolPayload" | Tick "nat \<Rightarrow> real"

fun step ::
  "('v \<Rightarrow> 'cal \<Rightarrow> (real \<times> real) option) \<Rightarrow> ('ws \<Rightarrow> json \<Rightarrow> exn option) \<Rightarrow>
   ('cal, 'ws) ControllerBase \<Rightarrow> 'v event \<Rightarrow> ('cal, 'ws) ControllerBase" where
  "step compute_coordinates send_text c (Received now payload) =
     fst (snd (handle_received_payload compute_coordinates now payload c))"
| "step compute_coordinates send_text c (Tick clock) =
     fst (snd (dotbots_update_tick clock send_text c
                 :: (exn + unit) \<times> ('cal, 'ws) ControllerBase \<times> ('v, 'ws) effect list))"

text \<open>A controller with three observers, and payloads, for concrete evaluation.\<close>

definition sample_settings :: ControllerSettings where
  "sample_settings =
     \<lparr>port = ''/dev/ttyACM0'', baudrate = 1000000, dotbot_address = ''0000000000000001'',
      gw_address = ''0000000000000000'', swarm_id = ''0000'',
      calibration_dir = DEFAULT_CALIBRATION_DIR, calibrate = False, webbrowser = False,
      verbose = False\<rparr>"

definition sample_controller :: "(nat, nat) ControllerBase" where
  "sample_controller =
     \<lparr>dotbots = [],
      self_header = \<lparr>destination = 1, source = 0, header_swarm_id = 0, version = 1\<rparr>,
      settings = sample_settings, serial = None, websockets = [0, 1, 2],
      calibration = Some 0\<rparr>"

definition sample_payload :: "int \<Rightarrow> int \<Rightarrow> PayloadType \<Rightarrow> nat ProtocolPayload" where
  "sample_payload dst src t =
     \<lparr>header = \<lparr>destination = dst, source = src, header_swarm_id = 0, version = 1\<rparr>,
      payload_type = t, payload_values = 0\<rparr>"

definition sample_solver :: "nat \<Rightarrow> nat \<Rightarrow> (real \<times> real) option" where
  "sample_solver samples cal = Some (21 / 2, 16 / 5)"

definition no_solution :: "nat \<Rightarrow> nat \<Rightarrow> (real \<times> real) option" where
  "no_solution samples cal = None"

definition sample_record :: "string \<Rightarrow> real \<Rightarrow> string \<times> DotBotModel" where
  "sample_record a t = (a, \<lparr>address = a, last_seen = t, active = False\<rparr>)"


definition second_closed :: "nat \<Rightarrow> json \<Rightarrow> exn option" where
  "second_closed ws m = (if ws = 1 then Some ConnectionClosedError else None)"

definition second_runtime_error :: "nat \<Rightarrow> json \<Rightarrow> exn option" where
  "second_runtime_error ws m = (if ws = 1 then Some (OtherException ''RuntimeError'') else None)"

definition constant_clock :: "real \<Rightarrow> nat \<Rightarrow> real" where
  "constant_clock now i = now"


definition sample_filesystem :: "nat filesystem" where
  "sample_filesystem =
     \<lparr>path_exists = (\<lambda>path. path = ''/tmp/calibration.out''),
      pickle_load = (\<lambda>path. if path = ''/tmp/calibration.out'' then Inr 7
                             else Inl (OtherException ''FileNotFoundError''))\<rparr>"

definition sample_to_bytes :: "nat ProtocolPayload \<Rightarrow> byte list" where
  "sample_to_bytes p = [1, 2, 3]"

definition sample_hdlc_encode :: "byte list \<Rightarrow> byte list" where
  "sample_hdlc_encode bs = 126 # bs @ [126]"

section \<open>Properties\<close>

subsection \<open>Hexadecimal addresses round-trip\<close>

lemma length_be_bytes: "length (be_bytes n x) = n"
  by (induction n arbitrary: x) simp_all

lemma be_bytes_lt: "b \<in> set (be_bytes n x) \<Longrightarrow> b < 256"
  by (induction n arbitrary: x) auto

lemma from_be_append: "from_be (xs @ ys) = from_be xs * 256 ^ length ys + from_be ys"
  by (induction xs) (simp_all add: power_add algebra_simps)

lemma from_be_be_bytes: "from_be (be_bytes n x) = x mod 256 ^ n"
proof (induction n arbitrary: x)
  case 0
  then show ?case by simp
next
  case (Suc n)
  have "from_be (be_bytes (Suc n) x) = (x div 256 mod 256 ^ n) * 256 + x mod 256"
    by (simp add: from_be_append Suc)
  also have "\<dots> = x mod 256 ^ Suc n"
    by (simp add: mod_mult2_eq mult.commute)
  finally show ?case .
qed

lemma hex_digit_value: "n < 16 \<Longrightarrow> digit_value (hex_digits ! n) = Some n"
proof -
  have "\<forall>n \<in> set [0..<16]. digit_value (hex_digits ! n) = Some n"
    by code_simp
  then show "n < 16 \<Longrightarrow> digit_value (hex_digits ! n) = Some n" by simp
qed

lemma hex_digit_plain:
  "n < 16 \<Longrightarrow> \<not> py_isspace (hex_digits ! n) \<and> hex_digits ! n \<notin> set ''+-_xX''"
proof -
  have "\<forall>n \<in> set [0..<16]. \<not> py_isspace (hex_digits ! n) \<and> hex_digits ! n \<notin> set ''+-_xX''"
    by code_simp
  then show "n < 16 \<Longrightarrow> \<not> py_isspace (hex_digits ! n) \<and> hex_digits ! n \<notin> set ''+-_xX''" by simp
qed


lemma digits16_step:
  "c \<noteq> CHR ''_'' \<Longrightarrow> digit_value c = Some v \<Longrightarrow>
   digits16 acc (c # cs) = digits16 (16 * acc + int v) cs"
  by (cases cs) simp_all

lemma hex_digit_facts:
  assumes "b < 256"
  shows "digit_value (hex_digits ! (b div 16)) = Some (b div 16)"
    and "digit_value (hex_digits ! (b mod 16)) = Some (b mod 16)"
    and "hex_digits ! (b div 16) \<noteq> CHR ''_''"
    and "hex_digits ! (b mod 16) \<noteq> CHR ''_''"
proof -
  have 1: "b div 16 < 16" using assms by simp
  have 2: "b mod 16 < 16" by simp
  show "digit_value (hex_digits ! (b div 16)) = Some (b div 16)"
    by (rule hex_digit_value [OF 1])
  show "digit_value (hex_digits ! (b mod 16)) = Some (b mod 16)"
    by (rule hex_digit_value [OF 2])
  show "hex_digits ! (b div 16) \<noteq> CHR ''_''"
    using hex_digit_plain [OF 1] by auto
  show "hex_digits ! (b mod 16) \<noteq> CHR ''_''"
    using hex_digit_plain [OF 2] by auto
qed

lemma digits16_byte:
  assumes "b < 256"
  shows "digits16 acc (hex_digits ! (b div 16) # hex_digits ! (b mod 16) # cs) =
         digits16 (256 * acc + int b) cs"
proof -
  note f = hex_digit_facts [OF assms]
  have "digits16 acc (hex_digits ! (b div 16) # hex_digits ! (b mod 16) # cs) =
        digits16 (16 * acc + int (b div 16)) (hex_digits ! (b mod 16) # cs)"
    by (rule digits16_step [OF f(3) f(1)])
  also have "\<dots> = digits16 (16 * (16 * acc + int (b div 16)) + int (b mod 16)) cs"
    by (rule digits16_step [OF f(4) f(2)])
  also have "16 * (16 * acc + int (b div 16)) + int (b mod 16) = 256 * acc + int b"
    by (simp add: zdiv_int zmod_int)
  finally show ?thesis .
qed

lemma digits16_hexlify:
  "\<forall>b \<in> set bs. b < 256 \<Longrightarrow>
   digits16 acc (hexlify bs) = Inr (acc * 256 ^ length bs + int (from_be bs))"
proof (induction bs arbitrary: acc)
  case Nil
  then show ?case by simp
next
  case (Cons b bs)
  then have b: "b < 256" and rest: "\<forall>b \<in> set bs. b < 256" by simp_all
  have "digits16 acc (hexlify (b # bs)) = digits16 (256 * acc + int b) (hexlify bs)"
    by (simp only: hexlify.simps digits16_byte [OF b])
  also have "\<dots> = Inr ((256 * acc + int b) * 256 ^ length bs + int (from_be bs))"
    by (rule Cons.IH [OF rest])
  finally show ?case by (simp add: algebra_simps)
qed

lemma hexlify_chars:
  "\<forall>b \<in> set bs. b < 256 \<Longrightarrow> c \<in> set (hexlify bs) \<Longrightarrow> \<exists>n<16. c = hex_digits ! n"
proof (induction bs)
  case Nil
  then show ?case by simp
next
  case (Cons b bs)
  from Cons.prems(1) have "b < 256" by simp
  then have 1: "b div 16 < 16" by simp
  have 2: "b mod 16 < 16" by simp
  from Cons.prems(2) consider "c = hex_digits ! (b div 16)" | "c = hex_digits ! (b mod 16)"
    | "c \<in> set (hexlify bs)" by auto
  then show ?case
  proof cases
    case 1
    then show ?thesis using \<open>b div 16 < 16\<close> by blast
  next
    case 2
    then show ?thesis using \<open>b mod 16 < 16\<close> by blast
  next
    case 3
    then show ?thesis using Cons by simp
  qed
qed

lemma dropWhile_plain: "xs \<noteq> [] \<Longrightarrow> \<not> P (hd xs) \<Longrightarrow> dropWhile P xs = xs"
  by (cases xs) simp_all

lemma strip_plain:
  assumes "s \<noteq> []" and "\<not> py_isspace (hd s)" and "\<not> py_isspace (last s)"
  shows "strip s = s"
proof -
  have 1: "dropWhile py_isspace s = s"
    using assms(1,2) by (rule dropWhile_plain)
  have "dropWhile py_isspace (rev s) = rev s"
    using assms(1,3) by (intro dropWhile_plain) (simp_all add: hd_rev)
  with 1 show ?thesis by (simp add: strip_def)
qed

lemma py_int16_hexlify:
  assumes "bs \<noteq> []" and "\<forall>b \<in> set bs. b < 256"
  shows "py_int16 (hexlify bs) = Inr (int (from_be bs))"
proof -
  from assms obtain b bs' where bs: "bs = b # bs'" by (cases bs) auto
  with assms have b: "b div 16 < 16" "b mod 16 < 16" and rest: "\<forall>b \<in> set bs'. b < 256"
    by auto
  define c1 c2 t where "c1 = hex_digits ! (b div 16)" and "c2 = hex_digits ! (b mod 16)"
    and "t = hexlify bs'"
  have s: "hexlify bs = c1 # c2 # t" by (simp add: bs c1_def c2_def t_def)
  have "last (hexlify bs) \<in> set (hexlify bs)" by (simp add: s)
  then obtain n where n: "n < 16" "last (hexlify bs) = hex_digits ! n"
    using hexlify_chars [OF assms(2)] by blast
  have p1: "\<not> py_isspace c1" "c1 \<noteq> CHR ''+''" "c1 \<noteq> CHR ''-''"
    and p2: "c2 \<noteq> CHR ''x''" "c2 \<noteq> CHR ''X''" "c2 \<noteq> CHR ''_''"
    using hex_digit_plain [OF b(1)] hex_digit_plain [OF b(2)] by (auto simp: c1_def c2_def)
  have "strip (hexlify bs) = hexlify bs"
    using p1(1) n hex_digit_plain [OF n(1)] by (intro strip_plain) (simp_all add: s)
  moreover have "split_sign (c1 # c2 # t) = (1, c1 # c2 # t)"
    using p1 by (simp add: split_sign_def)
  moreover have "skip_0x (c1 # c2 # t) = c1 # c2 # t"
    using p2 by (simp add: skip_0x_def)
  moreover have "digit_value c1 = Some (b div 16)" "digit_value c2 = Some (b mod 16)"
    using b by (simp_all add: c1_def c2_def hex_digit_value)
  moreover have "digits16 (int (b div 16)) (c2 # t) = Inr (int (from_be bs))"
  proof -
    have b256: "b < 256" using assms bs by simp
    note f = hex_digit_facts [OF b256]
    have "digits16 (int (b div 16)) (c2 # t) =
          digits16 (16 * int (b div 16) + int (b mod 16)) t"
      unfolding c2_def by (rule digits16_step [OF f(4) f(2)])
    also have "16 * int (b div 16) + int (b mod 16) = int b"
      by (simp add: zdiv_int zmod_int)
    finally show ?thesis
      using rest by (simp add: t_def digits16_hexlify bs)
  qed
  ultimately show ?thesis by (simp add: py_int16_def s)
qed

lemma to_bytes_big_valid:
  "valid_address x \<Longrightarrow> to_bytes_big x 8 = Inr (be_bytes 8 (nat x))"
  by (simp add: to_bytes_big_def valid_address_def)

lemma py_int16_hex_address: "valid_address x \<Longrightarrow> py_int16 (hex_address x) = Inr x"
proof -
  assume v: "valid_address x"
  have "be_bytes 8 (nat x) \<noteq> []"
    using length_be_bytes [of 8 "nat x"] by auto
  then have "py_int16 (hex_address x) = Inr (int (from_be (be_bytes 8 (nat x))))"
    unfolding hex_address_def by (intro py_int16_hexlify) (auto dest: be_bytes_lt)
  also have "from_be (be_bytes 8 (nat x)) = nat x mod 256 ^ 8"
    by (rule from_be_be_bytes)
  also have "nat x mod 256 ^ 8 = nat x"
    using v by (simp add: valid_address_def nat_less_iff)
  finally show ?thesis using v by (simp add: valid_address_def)
qed


subsection \<open>The address key\<close>

lemma address_key_valid: "valid_address x \<Longrightarrow> address_key x = Inr (hex_address x)"
  by (simp add: address_key_def to_bytes_big_def valid_address_def hex_address_def)

lemma address_key_invalid: "\<not> valid_address x \<Longrightarrow> address_key x = Inl OverflowError"
  by (auto simp: address_key_def to_bytes_big_def valid_address_def)

lemma hex_address_1: "hex_address 1 = ''0000000000000001''"
  by code_simp

lemma hex_address_2: "hex_address 2 = ''0000000000000002''"
  by code_simp

subsection \<open>Reading effect lists\<close>

lemma created_tasks_append [simp]: "created_tasks (xs @ ys) = created_tasks xs @ created_tasks ys"
  by (induction xs rule: created_tasks.induct) simp_all

lemma notified_append [simp]: "notified (xs @ ys) = notified xs @ notified ys"
  by (induction xs rule: notified.induct) simp_all

lemma delivered_append [simp]: "delivered (xs @ ys) = delivered xs @ delivered ys"
  by (induction xs rule: delivered.induct) simp_all

lemma written_append [simp]: "written (xs @ ys) = written xs @ written ys"
  by (induction xs rule: written.induct) simp_all

lemma is_reload_simps [simp]:
  "is_reload reload_message" "\<not> is_reload (lh2_position_message a x y)"
  "\<not> is_lh2_position reload_message" "is_lh2_position (lh2_position_message a x y)"
  by (simp_all add: is_reload_def is_lh2_position_def reload_message_def lh2_position_message_def)

subsection \<open>Handling a received payload\<close>

text \<open>
  What \<open>handle_received_payload\<close> does with a payload that is not a command and whose
  source is a 64-bit address: it never raises, files the new record and returns the
  effects in the order of the source.
\<close>

lemma handle_telemetry:
  assumes "payload_type p \<noteq> CMD_MOVE_RAW" "payload_type p \<noteq> CMD_RGB_LED"
    and "valid_address (source (header p))"
  shows "handle_received_payload cc now p c =
    (Inr (),
     c\<lparr>dotbots := AList.update (hex_address (source (header p)))
          \<lparr>address = hex_address (source (header p)), last_seen = now,
           active = (source (header p) = destination (self_header c))\<rparr> (dotbots c)\<rparr>,
     (if verbose (settings c) then [Print_payload p] else []) @
     (if payload_type p = LH2_RAW_DATA then
        (if calibrate (settings c)
         then [Save_camera_points (payload_values p)
                 (os_path_join (calibration_dir (settings c)) [''calibration.csv''])]
         else []) @
        (case calibration c of
           None \<Rightarrow> []
         | Some cal \<Rightarrow>
             (case cc (payload_values p) cal of
                None \<Rightarrow> []
              | Some (x, y) \<Rightarrow>
                  [Create_task (lh2_position_message (hex_address (source (header p))) x y)]))
      else []) @
     (if hex_address (source (header p)) \<notin> keys c then [Create_task reload_message] else []))"
  using assms
  by (simp add: handle_received_payload_def address_key_valid py_int16_hex_address Let_def keys_def
      cong: option.case_cong)

text \<open>
  C6. A payload whose type is \<open>CMD_MOVE_RAW\<close> or \<open>CMD_RGB_LED\<close> is ignored: the
  handler returns the controller it was given, so no record of fleet state is created,
  refreshed or modified, and it has no effect at all. This holds for every header, valid
  source address or not.
\<close>

theorem command_payload_ignored:
  "payload_type p \<in> {CMD_MOVE_RAW, CMD_RGB_LED} \<Longrightarrow>
   handle_received_payload cc now p c = (Inr (), c, [])"
  by (auto simp: handle_received_payload_def)

theorem command_payload_ignored_witness:
  "payload_type (sample_payload 0 2 CMD_MOVE_RAW) \<in> {CMD_MOVE_RAW, CMD_RGB_LED} \<and>
   handle_received_payload sample_solver 10 (sample_payload 0 2 CMD_MOVE_RAW)
     (sample_controller\<lparr>dotbots := [sample_record ''0000000000000001'' 9]\<rparr>) =
   (Inr (), sample_controller\<lparr>dotbots := [sample_record ''0000000000000001'' 9]\<rparr>, [])"
  using command_payload_ignored [where p = "sample_payload 0 2 CMD_MOVE_RAW" and cc = sample_solver
      and now = 10
      and c = "sample_controller\<lparr>dotbots := [sample_record ''0000000000000001'' 9]\<rparr>"]
  by (simp add: sample_payload_def)

text \<open>
  C1, as the code has it. For a telemetry payload (any type but the two commands) from a
  64-bit source address, the handler creates the notification task for \<open>reload\<close> exactly
  when the address is not yet a key of fleet state, and no such task when it is. The
  handler itself starts no \<open>notify_clients\<close> body and sends nothing: the task it
  created can only start once the handler has returned, and then the address is already a
  key of fleet state.
\<close>

theorem reload_scheduled_for_new_address:
  assumes "payload_type p \<notin> {CMD_MOVE_RAW, CMD_RGB_LED}"
    and "valid_address (source (header p))"
  shows "case handle_received_payload cc now p c of
           (r, c', effs) \<Rightarrow>
             r = Inr () \<and>
             hex_address (source (header p)) \<in> keys c' \<and>
             delivered effs = [] \<and> notified effs = [] \<and>
             filter is_reload (created_tasks effs) =
               (if hex_address (source (header p)) \<in> keys c then [] else [reload_message])"
  using assms
  by (simp add: handle_telemetry keys_def AList.dom_update split: option.splits)

theorem reload_scheduled_for_new_address_witness:
  "payload_type (sample_payload 0 1 (OTHER_TYPE 4)) \<notin> {CMD_MOVE_RAW, CMD_RGB_LED} \<and>
   valid_address (source (header (sample_payload 0 1 (OTHER_TYPE 4)))) \<and>
   (case handle_received_payload sample_solver 10 (sample_payload 0 1 (OTHER_TYPE 4))
           sample_controller of
      (r, c', effs) \<Rightarrow>
        r = Inr () \<and> ''0000000000000001'' \<in> keys c' \<and> delivered effs = [] \<and>
        notified effs = [] \<and> filter is_reload (created_tasks effs) = [reload_message])"
  using reload_scheduled_for_new_address [where p = "sample_payload 0 1 (OTHER_TYPE 4)"
      and cc = sample_solver and now = 10 and c = sample_controller]
  by (simp add: sample_payload_def valid_address_def hex_address_1 keys_def
      sample_controller_def)

text \<open>
  C1 as the specification words it fails: address 2 is unknown, and when the handler
  has returned the snapshot of fleet state holds it, while the \<open>reload\<close> notification is
  still only a created task and no observer has been sent anything.
\<close>

theorem reload_not_observable_before_insert:
  "map fst (dotbots sample_controller) = [] \<and>
   created_tasks (snd (snd (handle_received_payload no_solution 10
      (sample_payload 0 2 (OTHER_TYPE 4)) sample_controller))) = [reload_message] \<and>
   delivered (snd (snd (handle_received_payload no_solution 10
      (sample_payload 0 2 (OTHER_TYPE 4)) sample_controller))) = [] \<and>
   map fst (dotbots (fst (snd (handle_received_payload no_solution 10
      (sample_payload 0 2 (OTHER_TYPE 4)) sample_controller)))) = [''0000000000000002'']"
  by (simp add: handle_telemetry sample_payload_def valid_address_def hex_address_2 keys_def
      sample_controller_def sample_settings_def)

text \<open>
  C7. For a positioning-sample batch (\<open>LH2_RAW_DATA\<close>) from a 64-bit source address:
  when a calibration model is loaded and the solver returns \<open>(x, y)\<close>, exactly one
  notification with \<open>cmd = lh2_position\<close> is emitted, and its JSON content is
  \<open>{"cmd": "lh2_position", "address": a, "x": x, "y": y}\<close> with \<open>a\<close> the hexadecimal
  source address; when no model is loaded or the solver returns nothing, none is emitted.
  The only other notification the handler can emit is the \<open>reload\<close> for a new address.
\<close>

theorem lh2_position_notification:
  assumes "payload_type p = LH2_RAW_DATA" and "valid_address (source (header p))"
  shows "case handle_received_payload cc now p c of
           (r, c', effs) \<Rightarrow>
             filter is_lh2_position (created_tasks effs) =
               (case calibration c of
                  None \<Rightarrow> []
                | Some cal \<Rightarrow>
                    (case cc (payload_values p) cal of
                       None \<Rightarrow> []
                     | Some (x, y) \<Rightarrow>
                         [JObject [(''cmd'', JString ''lh2_position''),
                                   (''address'', JString (hex_address (source (header p)))),
                                   (''x'', JNumber x), (''y'', JNumber y)]])) \<and>
             created_tasks effs =
               (case calibration c of
                  None \<Rightarrow> []
                | Some cal \<Rightarrow>
                    (case cc (payload_values p) cal of
                       None \<Rightarrow> []
                     | Some (x, y) \<Rightarrow>
                         [JObject [(''cmd'', JString ''lh2_position''),
                                   (''address'', JString (hex_address (source (header p)))),
                                   (''x'', JNumber x), (''y'', JNumber y)]])) @
               (if hex_address (source (header p)) \<in> keys c then []
                else [JObject [(''cmd'', JString ''reload'')]])"
  using assms
  by (auto simp: handle_telemetry lh2_position_message_def reload_message_def
      is_lh2_position_def split: option.splits)

theorem lh2_position_notification_witness:
  "payload_type (sample_payload 0 1 LH2_RAW_DATA) = LH2_RAW_DATA \<and>
   valid_address (source (header (sample_payload 0 1 LH2_RAW_DATA))) \<and>
   (case handle_received_payload sample_solver 10 (sample_payload 0 1 LH2_RAW_DATA)
           sample_controller of
      (r, c', effs) \<Rightarrow>
        filter is_lh2_position (created_tasks effs) =
          [JObject [(''cmd'', JString ''lh2_position''),
                    (''address'', JString ''0000000000000001''),
                    (''x'', JNumber (21 / 2)), (''y'', JNumber (16 / 5))]] \<and>
        created_tasks effs =
          [JObject [(''cmd'', JString ''lh2_position''),
                    (''address'', JString ''0000000000000001''),
                    (''x'', JNumber (21 / 2)), (''y'', JNumber (16 / 5))],
           JObject [(''cmd'', JString ''reload'')]])"
  using lh2_position_notification [where p = "sample_payload 0 1 LH2_RAW_DATA"
      and cc = sample_solver and now = 10 and c = sample_controller]
  by (simp add: sample_payload_def valid_address_def hex_address_1 sample_controller_def
      sample_solver_def keys_def case_prod_beta is_lh2_position_def)

text \<open>
  C8. The record that the handler files for a telemetry payload is stored under the
  hexadecimal source address, carries that address, has \<open>last_seen = now\<close> (the reading
  of \<open>time.time()\<close> of this very call) and is active exactly when its address, read as a
  hexadecimal number, is the destination of the controller's own header; no other key of
  fleet state is touched. Nothing else stores a record: the eviction round only removes
  records (\<open>pop_all_filter\<close> below).
\<close>

theorem inserted_record:
  assumes "payload_type p \<notin> {CMD_MOVE_RAW, CMD_RGB_LED}"
    and "valid_address (source (header p))"
  shows "case handle_received_payload cc now p c of
           (r, c', effs) \<Rightarrow>
             (\<exists>d. map_of (dotbots c') (hex_address (source (header p))) = Some d \<and>
                  address d = hex_address (source (header p)) \<and>
                  last_seen d = now \<and>
                  (active d \<longleftrightarrow> py_int16 (address d) = Inr (destination (self_header c')))) \<and>
             (\<forall>k. k \<noteq> hex_address (source (header p)) \<longrightarrow>
                  map_of (dotbots c') k = map_of (dotbots c) k)"
  using assms
  by (auto simp: handle_telemetry update_conv' py_int16_hex_address)

theorem inserted_record_witness:
  "payload_type (sample_payload 0 1 (OTHER_TYPE 4)) \<notin> {CMD_MOVE_RAW, CMD_RGB_LED} \<and>
   valid_address (source (header (sample_payload 0 1 (OTHER_TYPE 4)))) \<and>
   (case handle_received_payload sample_solver 10 (sample_payload 0 1 (OTHER_TYPE 4))
           sample_controller of
      (r, c', effs) \<Rightarrow>
        (\<exists>d. map_of (dotbots c') ''0000000000000001'' = Some d \<and>
             address d = ''0000000000000001'' \<and> last_seen d = 10 \<and>
             (active d \<longleftrightarrow> py_int16 (address d) = Inr (destination (self_header c')))))"
  using inserted_record [where p = "sample_payload 0 1 (OTHER_TYPE 4)" and cc = sample_solver
      and now = 10 and c = sample_controller]
  by (simp add: sample_payload_def valid_address_def hex_address_1 case_prod_beta)

subsection \<open>The eviction tick\<close>

lemma stale_scan_constant: "stale_scan (\<lambda>i. now) i rs = filter (stale now) rs"
  by (induction rs arbitrary: i) (simp_all add: stale_def)

lemma pop_all_present:
  assumes "distinct (map address rs)" and "address ` set rs \<subseteq> fst ` set d"
  shows "pop_all rs d = (Inr (), filter (\<lambda>(k, r). k \<notin> address ` set rs) d)"
  using assms
proof (induction rs arbitrary: d)
  case Nil
  then show ?case by simp
next
  case (Cons r rs)
  let ?d = "AList.delete (address r) d"
  from Cons.prems have pop: "dict_pop (address r) d = Inr ?d"
    by (simp add: dict_pop_def)
  have "address ` set rs \<subseteq> fst ` set ?d"
  proof
    fix k assume k: "k \<in> address ` set rs"
    from Cons.prems have "address r \<notin> address ` set rs" by simp
    with k have "k \<noteq> address r" by blast
    moreover from k Cons.prems have "k \<in> fst ` set d" by auto
    ultimately have "k \<noteq> address r" "k \<in> fst ` set d" by simp_all
    then show "k \<in> fst ` set ?d" by (force simp: AList.delete_eq)
  qed
  moreover from Cons.prems have "distinct (map address rs)" by simp
  ultimately have "pop_all rs ?d = (Inr (), filter (\<lambda>(k, r). k \<notin> address ` set rs) ?d)"
    by (rule Cons.IH [rotated])
  moreover have "filter (\<lambda>(k, r). k \<notin> address ` set rs) ?d =
                 filter (\<lambda>(k, r'). k \<notin> address ` set (r # rs)) d"
    by (auto simp: AList.delete_eq intro: filter_cong)
  ultimately show ?case
    by (simp add: pop)
qed

lemma fleet_ok_stale:
  assumes "fleet_ok d"
  shows "distinct (map address (filter (stale now) (map snd d)))"
    and "address ` set (filter (stale now) (map snd d)) \<subseteq> fst ` set d"
    and "filter (\<lambda>(k, r). k \<notin> address ` set (filter (stale now) (map snd d))) d =
         filter (\<lambda>(k, r). \<not> stale now r) d"
proof -
  from assms have dist: "distinct (map fst d)" and addr: "\<And>k r. (k, r) \<in> set d \<Longrightarrow> address r = k"
    by (auto simp: fleet_ok_def)
  have eq: "map address (map snd d) = map fst d"
    using addr by (auto simp: comp_def)
  have "distinct (map address (map snd d))"
    using dist by (simp only: eq)
  then show "distinct (map address (filter (stale now) (map snd d)))"
    by (rule distinct_map_filter)
  show "address ` set (filter (stale now) (map snd d)) \<subseteq> fst ` set d"
    using addr by (force simp: image_iff)
  show "filter (\<lambda>(k, r). k \<notin> address ` set (filter (stale now) (map snd d))) d =
        filter (\<lambda>(k, r). \<not> stale now r) d"
  proof (rule filter_cong [OF refl], clarify)
    fix k r assume kr: "(k, r) \<in> set d"
    have "k \<in> address ` set (filter (stale now) (map snd d)) \<longleftrightarrow> stale now r"
    proof
      assume "k \<in> address ` set (filter (stale now) (map snd d))"
      then obtain k' r' where 1: "(k', r') \<in> set d" "stale now r'" "address r' = k"
        by auto
      with addr have "k' = k" by auto
      with 1 kr dist have "r' = r" by (meson eq_key_imp_eq_value)
      with 1 show "stale now r" by simp
    next
      assume "stale now r"
      with kr addr [OF kr] show "k \<in> address ` set (filter (stale now) (map snd d))"
        by (force simp: image_iff)
    qed
    then show "(k \<notin> address ` set (filter (stale now) (map snd d))) = (\<not> stale now r)"
      by simp
  qed
qed

lemma notified_notify_clients:
  "notified (snd (notify_clients send c m)) = [m]"
proof -
  have "notified (concat (map (\<lambda>ws. snd (ws_send_safe send ws m)) wss)) = []" for wss
    by (induction wss) (simp_all add: ws_send_safe_def split: option.splits)
  then show ?thesis by (simp add: notify_clients_def Let_def comp_def)
qed

lemma created_notify_clients:
  "created_tasks (snd (notify_clients send c m)) = []"
proof -
  have "created_tasks (concat (map (\<lambda>ws. snd (ws_send_safe send ws m)) wss)) = []" for wss
    by (induction wss) (simp_all add: ws_send_safe_def split: option.splits)
  then show ?thesis by (simp add: notify_clients_def Let_def comp_def)
qed





text \<open>
  When the clock does not move during the scan, the records removed are those with
  \<open>last_seen + 3 < now\<close> for that one reading.
\<close>

lemma eviction_one_reading:
  assumes "fleet_ok (dotbots c)"
  shows "case dotbots_update_tick (\<lambda>i. now) send c of
           (r, c', effs) \<Rightarrow>
             dotbots c' = filter (\<lambda>(k, d). \<not> stale now d) (dotbots c) \<and>
             notified effs =
               (if \<exists>d \<in> snd ` set (dotbots c). stale now d then [reload_message] else []) \<and>
             created_tasks effs = []"
proof -
  let ?rs = "filter (stale now) (map snd (dotbots c))"
  note ok = fleet_ok_stale [OF assms, of now]
  have pop: "pop_all ?rs (dotbots c) = (Inr (), filter (\<lambda>(k, d). \<not> stale now d) (dotbots c))"
    using pop_all_present [OF ok(1) ok(2)] by (simp only: ok(3))
  have ne: "?rs \<noteq> [] \<longleftrightarrow> (\<exists>d \<in> snd ` set (dotbots c). stale now d)"
    by (auto simp: filter_empty_conv)
  show ?thesis
    by (simp add: dotbots_update_tick_def stale_scan_constant pop Let_def ne case_prod_beta
        sum.case_eq_if notified_notify_clients created_notify_clients)
qed

subsection \<open>The invariant of fleet state\<close>

text \<open>
  A freshly constructed controller satisfies \<open>records_ok\<close>, and handling a payload (any
  payload) and a round of the eviction loop (with any clock) keep it: every fleet state
  the controller ever holds has unique keys, files every record under its own address, and
  has the active flag of every record right.
\<close>

lemma controller_init_fresh:
  assumes "controller_init fs v st = Inr c"
  shows "dotbots c = []" and "serial c = None" and "websockets c = []" and "settings c = st"
    and "py_int16 (dotbot_address st) = Inr (destination (self_header c))"
  using assms
  by (auto simp: controller_init_def Let_def split: sum.splits if_splits)

lemma records_ok_init: "controller_init fs v st = Inr c \<Longrightarrow> records_ok c"
  by (simp add: records_ok_def fleet_ok_def controller_init_fresh(1))

lemma fleet_ok_filter: "fleet_ok d \<Longrightarrow> fleet_ok (filter P d)"
  by (auto simp: fleet_ok_def distinct_map_filter)

lemma set_update_subset: "set (AList.update k v al) \<subseteq> insert (k, v) (set al)"
  by (induction al) auto

lemma fleet_ok_update: "fleet_ok d \<Longrightarrow> address v = k \<Longrightarrow> fleet_ok (AList.update k v d)"
  using set_update_subset [of k v d]
  by (auto simp: fleet_ok_def distinct_update)

lemma pop_all_filter: "\<exists>P. snd (pop_all rs d) = filter P d"
proof (induction rs arbitrary: d)
  case Nil
  have "snd (pop_all [] d) = filter (\<lambda>x. True) d" by simp
  then show ?case by blast
next
  case (Cons r rs)
  show ?case
  proof (cases "address r \<in> fst ` set d")
    case False
    then have "snd (pop_all (r # rs) d) = filter (\<lambda>x. True) d"
      by (simp add: dict_pop_def)
    then show ?thesis by blast
  next
    case True
    from Cons.IH [of "AList.delete (address r) d"] obtain P
      where "snd (pop_all rs (AList.delete (address r) d)) = filter P (AList.delete (address r) d)"
      by blast
    with True have "snd (pop_all (r # rs) d) = filter (\<lambda>x. address r \<noteq> fst x \<and> P x) d"
      by (simp add: dict_pop_def AList.delete_eq case_prod_unfold)
    then show ?thesis by blast
  qed
qed

lemma tick_state:
  "fst (snd (dotbots_update_tick clock send c)) =
   c\<lparr>dotbots := snd (pop_all (stale_scan clock 0 (map snd (dotbots c))) (dotbots c))\<rparr>"
  by (simp add: dotbots_update_tick_def Let_def split: prod.splits sum.splits)

lemma records_ok_tick:
  assumes "records_ok c"
  shows "records_ok (fst (snd (dotbots_update_tick clock send c)))"
proof -
  obtain P where P: "snd (pop_all (stale_scan clock 0 (map snd (dotbots c))) (dotbots c)) =
      filter P (dotbots c)"
    using pop_all_filter by blast
  show ?thesis
    unfolding tick_state P using assms
    by (auto simp: records_ok_def fleet_ok_filter)
qed

lemma records_ok_handle:
  assumes "records_ok c"
  shows "records_ok (fst (snd (handle_received_payload cc now p c)))"
proof -
  have upd: "records_ok (c\<lparr>dotbots := AList.update k
        \<lparr>address = k, last_seen = now, active = (n = destination (self_header c))\<rparr> (dotbots c)\<rparr>)"
    if "py_int16 k = Inr n" for k n
    using assms that
      set_update_subset [of k "\<lparr>address = k, last_seen = now,
        active = (n = destination (self_header c))\<rparr>" "dotbots c"]
    by (auto simp: records_ok_def fleet_ok_update)
  show ?thesis
    using assms upd
    by (auto simp: handle_received_payload_def Let_def split: sum.splits)
qed

lemma records_ok_run:
  "records_ok c \<Longrightarrow> records_ok (foldl (step cc send) c evs)"
proof (induction evs arbitrary: c)
  case Nil
  then show ?case by simp
next
  case (Cons ev evs)
  have "records_ok (step cc send c ev)"
    using Cons.prems by (cases ev) (simp_all add: records_ok_handle records_ok_tick)
  then show ?case using Cons.IH by simp
qed

subsection \<open>Event fan-out\<close>

lemma delivered_sends:
  "delivered (concat (map (\<lambda>ws. snd (ws_send_safe send ws m)) wss)) =
   map (\<lambda>ws. (ws, m)) (filter (\<lambda>ws. send ws m = None) wss)"
  by (induction wss) (simp_all add: ws_send_safe_def split: option.splits)

lemma gather_sends:
  "gather (map (\<lambda>ws. fst (ws_send_safe send ws m)) wss) = Inr () \<longleftrightarrow>
   (\<forall>ws \<in> set wss. send ws m = None \<or> send ws m = Some ConnectionClosedError)"
  by (induction wss) (auto simp: ws_send_safe_def split: option.splits)

text \<open>
  C3, as the code has it. \<open>notify_clients\<close> delivers the message to every registered
  handle whose \<open>send_text\<close> goes through, whatever happens on the other handles; it
  returns normally exactly when every failing send failed with
  \<open>ConnectionClosedError\<close>, the one exception \<open>_ws_send_safe\<close> catches.
\<close>

theorem notify_clients_isolation:
  "delivered (snd (notify_clients send c m)) =
     map (\<lambda>ws. (ws, m)) (filter (\<lambda>ws. send ws m = None) (websockets c)) \<and>
   (fst (notify_clients send c m) = Inr () \<longleftrightarrow>
     (\<forall>ws \<in> set (websockets c). send ws m = None \<or> send ws m = Some ConnectionClosedError))"
  by (simp add: notify_clients_def Let_def comp_def delivered_sends gather_sends)

theorem notify_clients_isolation_witness:
  "delivered (snd (notify_clients second_closed sample_controller reload_message)) =
     [(0, reload_message), (2, reload_message)] \<and>
   fst (notify_clients second_closed sample_controller reload_message) = Inr ()"
  using notify_clients_isolation [of second_closed sample_controller reload_message]
  by (simp add: second_closed_def sample_controller_def)

text \<open>
  C3 as the specification words it fails: with three observers of which the second
  raises \<open>RuntimeError\<close>, the other two receive the message and the exception leaves
  \<open>notify_clients\<close>.
\<close>

theorem notify_clients_raises:
  "fst (notify_clients second_runtime_error sample_controller reload_message) =
     Inl (OtherException ''RuntimeError'') \<and>
   delivered (snd (notify_clients second_runtime_error sample_controller reload_message)) =
     [(0, reload_message), (2, reload_message)]"
  by (simp add: notify_clients_def ws_send_safe_def second_runtime_error_def
      sample_controller_def)

subsection \<open>The outbound path\<close>

lemma send_payload_valid:
  assumes "valid_address (destination (header p))"
  shows "send_payload to_bytes hdlc_encode p c =
     (Inr (),
      if hex_address (destination (header p)) \<in> keys c \<and> serial c \<noteq> None
      then [Serial_write (hdlc_encode (to_bytes p))] else [])"
  using assms
  by (auto simp: send_payload_def address_key_valid keys_def split: option.splits)

text \<open>
  C5, as the code has it. For a payload whose destination is a 64-bit address,
  \<open>send_payload\<close> never raises; it writes nothing when the destination is not a key of
  fleet state, and it writes \<open>hdlc_encode(payload.to_bytes())\<close>, once, when the
  destination is a key of fleet state and the serial handle is set. (With the destination
  present and no serial handle nothing is written either.)
\<close>

theorem send_payload_cases:
  assumes "valid_address (destination (header p))"
  shows "send_payload to_bytes hdlc_encode p c =
     (Inr (),
      if hex_address (destination (header p)) \<in> keys c \<and> serial c \<noteq> None
      then [Serial_write (hdlc_encode (to_bytes p))] else [])"
  using assms by (rule send_payload_valid)

theorem send_payload_cases_witness:
  "valid_address (destination (header (sample_payload 1 0 CMD_RGB_LED))) \<and>
   send_payload sample_to_bytes sample_hdlc_encode (sample_payload 1 0 CMD_RGB_LED)
     (start_serial (sample_controller\<lparr>dotbots := [sample_record ''0000000000000001'' 9]\<rparr>)) =
   (Inr (), [Serial_write [126, 1, 2, 3, 126]])"
  using send_payload_cases [where p = "sample_payload 1 0 CMD_RGB_LED" and to_bytes = sample_to_bytes
      and hdlc_encode = sample_hdlc_encode
      and c = "start_serial (sample_controller\<lparr>dotbots := [sample_record ''0000000000000001'' 9]\<rparr>)"]
  by (simp add: sample_payload_def valid_address_def hex_address_1 keys_def start_serial_def
      sample_record_def sample_to_bytes_def sample_hdlc_encode_def)

text \<open>
  C5 as the specification words it fails: address 1 is a key of fleet state, yet
  nothing is written for a payload addressed to it, since the serial handle is not set.
\<close>

theorem send_present_without_serial_writes_nothing:
  "hex_address (destination (header (sample_payload 1 0 CMD_MOVE_RAW))) = ''0000000000000001'' \<and>
   map fst (dotbots (sample_controller\<lparr>dotbots := [sample_record ''0000000000000001'' 9]\<rparr>)) =
     [''0000000000000001''] \<and>
   written (snd (send_payload sample_to_bytes sample_hdlc_encode (sample_payload 1 0 CMD_MOVE_RAW)
     (sample_controller\<lparr>dotbots := [sample_record ''0000000000000001'' 9]\<rparr>))
     :: (nat, nat) effect list) = []"
  by (simp add: send_payload_valid sample_payload_def valid_address_def hex_address_1 keys_def
      sample_record_def sample_controller_def)

text \<open>
  C10. When the destination of the payload is a key of fleet state and the serial handle is
  unset, \<open>send_payload\<close> returns normally and writes nothing, as it does for an unknown
  destination.
\<close>

theorem send_without_serial:
  assumes "address_key (destination (header p)) = Inr k" and "k \<in> keys c"
    and "serial c = None"
  shows "send_payload to_bytes hdlc_encode p c = (Inr (), [])"
  using assms by (simp add: send_payload_def keys_def)

theorem send_without_serial_witness:
  "address_key (destination (header (sample_payload 1 0 CMD_RGB_LED))) = Inr ''0000000000000001'' \<and>
   ''0000000000000001'' \<in> keys (sample_controller\<lparr>dotbots := [sample_record ''0000000000000001'' 5]\<rparr>) \<and>
   serial (sample_controller\<lparr>dotbots := [sample_record ''0000000000000001'' 5]\<rparr>) = None \<and>
   send_payload sample_to_bytes sample_hdlc_encode (sample_payload 1 0 CMD_RGB_LED)
     (sample_controller\<lparr>dotbots := [sample_record ''0000000000000001'' 5]\<rparr>) =
   (Inr (), [] :: (nat, nat) effect list)"
  using send_without_serial [where p = "sample_payload 1 0 CMD_RGB_LED" and k = "''0000000000000001''"
      and c = "sample_controller\<lparr>dotbots := [sample_record ''0000000000000001'' 5]\<rparr>"
      and to_bytes = sample_to_bytes and hdlc_encode = sample_hdlc_encode]
  by (simp add: sample_payload_def address_key_valid valid_address_def hex_address_1 keys_def
      sample_record_def sample_controller_def)

subsection \<open>The orchestrator\<close>

text \<open>
  C4, as the code has it. When an activity raises \<open>SerialInterfaceException\<close> or
  \<open>SerialException\<close>, \<open>run\<close> prints the exception, cancels the task of every one of
  the six activities and returns normally: the exception is not raised to the caller.
\<close>

theorem run_fatal_transport_error:
  "run None (Some (Raised a (SerialInterfaceException m))) =
     Some (Inr (), Print_exn (SerialInterfaceException m) # map Cancel tasks) \<and>
   run None (Some (Raised a (SerialException m))) =
     Some (Inr (), Print_exn (SerialException m) # map Cancel tasks) \<and>
   set tasks = UNIV"
proof -
  have "b \<in> set tasks" for b
    by (cases b) (simp_all add: tasks_def)
  then have "set tasks = UNIV" by blast
  then show ?thesis by (simp add: run_def)
qed

text \<open>
  C4 as the specification words it fails: the serial activity raises
  \<open>SerialException\<close> and \<open>run\<close> returns normally instead of raising it.
\<close>

theorem run_swallows_serial_exception:
  "map_option fst
     (run None (Some (Raised Start_serial (SerialException ''device disconnected'')))
        :: ((exn + unit) \<times> (nat, nat) effect list) option) = Some (Inr ()) \<and>
   map_option fst
     (run None (Some (Raised Start_serial (SerialException ''device disconnected'')))
        :: ((exn + unit) \<times> (nat, nat) effect list) option) \<noteq>
     Some (Inl (SerialException ''device disconnected''))"
  by (simp add: run_def)

subsection \<open>Construction\<close>

lemma join_step_absolute: "join_step p (CHR ''/'' # b) = CHR ''/'' # b"
  by (simp add: join_step_def sep_def)

lemma calibration_path_const: "calibration_path st = ''/tmp/calibration.out''"
  by (simp add: calibration_path_def os_path_join_def join_step_absolute)

lemma py_int16_samples:
  "py_int16 ''0000000000000001'' = Inr 1"
  "py_int16 ''0000000000000000'' = Inr 0"
  "py_int16 ''0000'' = Inr 0"
  by code_simp+

text \<open>
  C9. Whatever the \<open>calibration_dir\<close> setting is, the path that \<open>__init__\<close> builds
  is \<open>/tmp/calibration.out\<close>, since the second component of the join is absolute, and
  that is where the constructor looks: once the three addresses of the settings are read,
  it asks \<open>os.path.exists\<close> about \<open>/tmp/calibration.out\<close> and, if the file is
  there, loads the calibration model from it (or fails as \<open>pickle.load\<close> fails);
  otherwise no model is loaded. \<open>calibration_dir\<close> only ends up in the stored
  settings.
\<close>

theorem calibration_looked_up_at_tmp:
  assumes "py_int16 (dotbot_address st) = Inr d" and "py_int16 (gw_address st) = Inr g"
    and "py_int16 (swarm_id st) = Inr sw"
  shows "calibration_path (st\<lparr>calibration_dir := dir\<rparr>) = ''/tmp/calibration.out'' \<and>
   controller_init fs v (st\<lparr>calibration_dir := dir\<rparr>) =
     (if path_exists fs ''/tmp/calibration.out''
      then (case pickle_load fs ''/tmp/calibration.out'' of
              Inl e \<Rightarrow> Inl e
            | Inr cal \<Rightarrow>
                Inr \<lparr>dotbots = [],
                     self_header = \<lparr>destination = d, source = g, header_swarm_id = sw,
                                     version = v\<rparr>,
                     settings = st\<lparr>calibration_dir := dir\<rparr>, serial = None,
                     websockets = [], calibration = Some cal\<rparr>)
      else Inr \<lparr>dotbots = [],
                self_header = \<lparr>destination = d, source = g, header_swarm_id = sw,
                                version = v\<rparr>,
                settings = st\<lparr>calibration_dir := dir\<rparr>, serial = None,
                websockets = [], calibration = None\<rparr>)"
  using assms
  by (simp add: calibration_path_const controller_init_def Let_def split: sum.splits)

theorem calibration_looked_up_at_tmp_witness:
  "py_int16 (dotbot_address sample_settings) = Inr 1 \<and>
   py_int16 (gw_address sample_settings) = Inr 0 \<and>
   py_int16 (swarm_id sample_settings) = Inr 0 \<and>
   calibration_path (sample_settings\<lparr>calibration_dir := ''/home/dotbot/calibration''\<rparr>) =
     ''/tmp/calibration.out'' \<and>
   (controller_init sample_filesystem 1
      (sample_settings\<lparr>calibration_dir := ''/home/dotbot/calibration''\<rparr>)
      :: exn + (nat, nat) ControllerBase) =
     Inr \<lparr>dotbots = [],
          self_header = \<lparr>destination = 1, source = 0, header_swarm_id = 0, version = 1\<rparr>,
          settings = sample_settings\<lparr>calibration_dir := ''/home/dotbot/calibration''\<rparr>,
          serial = None, websockets = [], calibration = Some 7\<rparr>"
  using calibration_looked_up_at_tmp [where st = sample_settings and d = 1 and g = 0 and sw = 0
      and fs = sample_filesystem and v = 1 and dir = "''/home/dotbot/calibration''"]
  by (simp add: sample_settings_def sample_filesystem_def py_int16_samples)

text \<open>
  So two constructions that differ only in \<open>calibration_dir\<close> fail alike or load the
  same calibration model, also when reading the addresses fails.
\<close>

lemma calibration_dir_never_used:
  "calibration_path (st\<lparr>calibration_dir := d\<rparr>) = ''/tmp/calibration.out'' \<and>
   map_sum id calibration
     (controller_init fs v (st\<lparr>calibration_dir := d\<rparr>) :: exn + ('cal, 'ws) ControllerBase) =
   map_sum id calibration (controller_init fs v st :: exn + ('cal, 'ws) ControllerBase)"
  by (simp add: calibration_path_const controller_init_def Let_def split: sum.splits)

end
